theory Spec2Isabelle
  imports Main "HOL-Library.Word" "HOL-Library.Sublist"
begin

section \<open>DamSafetyMonitor: the contract of src/contracts/DamSafetyMonitor.sol\<close>

text \<open>
  The contract is embedded shallowly. Storage is a record, one field per state variable;
  a Solidity mapping is a total function (every key holds the zero value until written).
  A function of the contract takes the storage and returns either the error it reverts
  with or the new storage together with what it sent out (events and external calls), in
  program order. A reverted transaction leaves the storage as it was (\<open>transact\<close>).
\<close>

subsection \<open>Value types\<close>

type_synonym uint256 = "256 word"
type_synonym uint32 = "32 word"
type_synonym address = "160 word"
type_synonym bytes32 = "256 word"
type_synonym bytes = "8 word list"

text \<open>
  \<open>euint32\<close> and \<open>ebool\<close> are the ciphertext handles of the FHE library: 32-byte
  values the contract stores and passes on without looking inside.
\<close>

type_synonym euint32 = "256 word"
type_synonym ebool = "256 word"

subsection \<open>The FHE library\<close>

text \<open>
  \<open>@fhevm/solidity/lib/FHE.sol\<close> is imported by the contract and is not part of the
  repository. The functions the contract calls are parameters of the model: every theorem
  below holds for whatever the library computes. \<open>checkSignatures\<close> reverts in the
  library when the proof is not valid; here it returns whether it passes.
  \<open>requestComputation\<close> changes the state of the library and returns the request id
  the coprocessor issues: what it returns is not a function of its arguments, and is an
  input of the transaction that calls it (\<open>issued_request_id\<close> below).
\<close>

datatype selector = assessRisk_selector

record FHE =
  asEuint32 :: "uint32 \<Rightarrow> euint32"
  asEbool :: "bool \<Rightarrow> ebool"
  toBytes32 :: "euint32 \<Rightarrow> bytes32"
  checkSignatures :: "uint256 \<Rightarrow> bytes \<Rightarrow> bytes \<Rightarrow> bool"
  decrypt :: "ebool \<Rightarrow> bool"

subsection \<open>Structs and storage\<close>

record EncryptedSensorData =
  encryptedSeepage :: euint32
  encryptedDeformation :: euint32
  encryptedPressure :: euint32
  timestamp :: uint256

record RiskAssessment =
  encryptedRiskScore :: euint32
  encryptedWarningFlag :: ebool
  isAssessed :: bool

record MaintenanceRecord =
  timestamp :: uint256
  action :: string

record DamSafetyMonitor =
  sensorData :: "uint256 \<Rightarrow> EncryptedSensorData"
  riskAssessments :: "uint256 \<Rightarrow> RiskAssessment"
  dataCount :: uint256
  encryptedSeepageThreshold :: euint32
  encryptedDeformationThreshold :: euint32
  maintenanceHistory :: "uint256 \<Rightarrow> MaintenanceRecord list"

subsection \<open>Events, external calls, errors\<close>

datatype event =
    SensorDataReceived uint256 uint256
  | RiskAssessmentRequested uint256
  | RiskWarningGenerated uint256
  | MaintenanceRecorded uint256 string

text \<open>
  What a successful call sends out: an event, or the call of
  \<open>FHE.requestComputation\<close> with its ciphertexts, its callback selector and the
  request id it returned.
\<close>

datatype effect =
    Emit event
  | RequestComputation "bytes32 list" selector uint256

text \<open>
  \<open>Error msg\<close> is the revert of \<open>require(cond, msg)\<close>; \<open>Panic 0x11\<close> the one of
  checked arithmetic on overflow; \<open>InvalidProof\<close> the revert of
  \<open>FHE.checkSignatures\<close>; \<open>DecodeFailed\<close> the revert of \<open>abi.decode\<close> on data
  that is not an encoding of the requested types.
\<close>

datatype error =
    Error string
  | Panic nat
  | InvalidProof
  | DecodeFailed

type_synonym 'a result = "error + 'a"

text \<open>
  What a transaction carries besides its arguments: the sender, the time of the block,
  and the request id that \<open>FHE.requestComputation\<close> returns when the transaction
  calls it. Two transactions may get different ids, or the same one: nothing is assumed
  about how the coprocessor numbers its requests.
\<close>

record ctx =
  msg_sender :: address
  block_timestamp :: uint256
  issued_request_id :: uint256

subsection \<open>The modifier\<close>

text \<open>
  \<open>onlyOperator\<close> has the body \<open>_;\<close> alone: the \<open>require\<close> on the sender is a
  comment in the source. The modified function runs for every sender.
\<close>

definition onlyOperator :: "address \<Rightarrow> 'a result \<Rightarrow> 'a result" where
  "onlyOperator sender body = body"

subsection \<open>Constructor\<close>

definition zero_EncryptedSensorData :: EncryptedSensorData where
  "zero_EncryptedSensorData =
     \<lparr>encryptedSeepage = 0, encryptedDeformation = 0, encryptedPressure = 0,
      EncryptedSensorData.timestamp = 0\<rparr>"

definition zero_RiskAssessment :: RiskAssessment where
  "zero_RiskAssessment =
     \<lparr>encryptedRiskScore = 0, encryptedWarningFlag = 0, isAssessed = False\<rparr>"

definition constructor :: "FHE \<Rightarrow> DamSafetyMonitor" where
  "constructor fhe =
     \<lparr>sensorData = (\<lambda>_. zero_EncryptedSensorData),
      riskAssessments = (\<lambda>_. zero_RiskAssessment),
      dataCount = 0,
      encryptedSeepageThreshold = asEuint32 fhe 500,
      encryptedDeformationThreshold = asEuint32 fhe 100,
      maintenanceHistory = (\<lambda>_. [])\<rparr>"

subsection \<open>Functions\<close>

definition submitSensorData ::
  "FHE \<Rightarrow> ctx \<Rightarrow> DamSafetyMonitor \<Rightarrow> euint32 \<Rightarrow> euint32 \<Rightarrow> euint32
     \<Rightarrow> (DamSafetyMonitor \<times> effect list) result" where
  "submitSensorData fhe c s seepage deformation pressure =
     onlyOperator (msg_sender c)
       (if dataCount s = - 1 then Inl (Panic 0x11)
        else
          let newId = dataCount s + 1;
              s1 = s\<lparr>dataCount := newId\<rparr>;
              s2 = s1\<lparr>sensorData := (sensorData s1)(newId :=
                     \<lparr>encryptedSeepage = seepage,
                      encryptedDeformation = deformation,
                      encryptedPressure = pressure,
                      EncryptedSensorData.timestamp = block_timestamp c\<rparr>)\<rparr>;
              s3 = s2\<lparr>riskAssessments := (riskAssessments s2)(newId :=
                     \<lparr>encryptedRiskScore = asEuint32 fhe 0,
                      encryptedWarningFlag = asEbool fhe False,
                      isAssessed = False\<rparr>)\<rparr>
          in Inr (s3, [Emit (SensorDataReceived newId (block_timestamp c))]))"

definition requestRiskAssessment ::
  "FHE \<Rightarrow> ctx \<Rightarrow> DamSafetyMonitor \<Rightarrow> uint256 \<Rightarrow> (DamSafetyMonitor \<times> effect list) result" where
  "requestRiskAssessment fhe c s dataId =
     onlyOperator (msg_sender c)
       (if isAssessed (riskAssessments s dataId) then Inl (Error ''Already assessed'')
        else
          let data = sensorData s dataId;
              ciphertexts =
                [toBytes32 fhe (encryptedSeepage data),
                 toBytes32 fhe (encryptedDeformation data),
                 toBytes32 fhe (encryptedPressure data),
                 toBytes32 fhe (encryptedSeepageThreshold s),
                 toBytes32 fhe (encryptedDeformationThreshold s)];
              reqId = issued_request_id c
          in Inr (s, [RequestComputation ciphertexts assessRisk_selector reqId,
                      Emit (RiskAssessmentRequested dataId)]))"

text \<open>
  \<open>abi.decode(results, (uint32, bool))\<close>: two 32-byte big-endian words; the decoder
  reverts on fewer than 64 bytes, on a first word that is not a \<open>uint32\<close> and on a
  second word that is neither 0 nor 1. Bytes after the first 64 are ignored.
\<close>

definition be_uint :: "bytes \<Rightarrow> nat" where
  "be_uint bs = foldl (\<lambda>acc b. 256 * acc + unat b) 0 bs"

definition abi_decode_uint32_bool :: "bytes \<Rightarrow> (uint32 \<times> bool) option" where
  "abi_decode_uint32_bool bs =
     (if length bs < 64 then None
      else
        let a = be_uint (take 32 bs);
            b = be_uint (take 32 (drop 32 bs))
        in if a < 2 ^ 32 \<and> b < 2 then Some (word_of_nat a, b = 1) else None)"

definition assessRisk ::
  "FHE \<Rightarrow> DamSafetyMonitor \<Rightarrow> uint256 \<Rightarrow> bytes \<Rightarrow> bytes
     \<Rightarrow> (DamSafetyMonitor \<times> effect list) result" where
  "assessRisk fhe s requestId results proof =
     (if \<not> checkSignatures fhe requestId results proof then Inl InvalidProof
      else
        case abi_decode_uint32_bool results of
          None \<Rightarrow> Inl DecodeFailed
        | Some (riskScore, warningFlag) \<Rightarrow>
            let s1 = s\<lparr>riskAssessments := (riskAssessments s)(requestId :=
                       \<lparr>encryptedRiskScore = asEuint32 fhe riskScore,
                        encryptedWarningFlag = asEbool fhe warningFlag,
                        isAssessed = True\<rparr>)\<rparr>
            in Inr (s1, if warningFlag then [Emit (RiskWarningGenerated requestId)] else []))"

definition recordMaintenance ::
  "ctx \<Rightarrow> DamSafetyMonitor \<Rightarrow> uint256 \<Rightarrow> string \<Rightarrow> (DamSafetyMonitor \<times> effect list) result" where
  "recordMaintenance c s damId act =
     onlyOperator (msg_sender c)
       (Inr (s\<lparr>maintenanceHistory := (maintenanceHistory s)(damId :=
                 maintenanceHistory s damId @
                   [\<lparr>MaintenanceRecord.timestamp = block_timestamp c, action = act\<rparr>])\<rparr>,
             [Emit (MaintenanceRecorded damId act)]))"

definition updateSafetyThresholds ::
  "ctx \<Rightarrow> DamSafetyMonitor \<Rightarrow> euint32 \<Rightarrow> euint32 \<Rightarrow> (DamSafetyMonitor \<times> effect list) result" where
  "updateSafetyThresholds c s newSeepageThreshold newDeformationThreshold =
     onlyOperator (msg_sender c)
       (Inr (s\<lparr>encryptedSeepageThreshold := newSeepageThreshold,
                encryptedDeformationThreshold := newDeformationThreshold\<rparr>, []))"

text \<open>The \<open>view\<close> functions read the storage and return a value or revert.\<close>

definition getEncryptedRiskScore :: "DamSafetyMonitor \<Rightarrow> uint256 \<Rightarrow> euint32 result" where
  "getEncryptedRiskScore s dataId =
     (if \<not> isAssessed (riskAssessments s dataId) then Inl (Error ''Not assessed'')
      else Inr (encryptedRiskScore (riskAssessments s dataId)))"

definition hasWarning :: "FHE \<Rightarrow> DamSafetyMonitor \<Rightarrow> uint256 \<Rightarrow> bool result" where
  "hasWarning fhe s dataId =
     (if \<not> isAssessed (riskAssessments s dataId) then Inl (Error ''Not assessed'')
      else Inr (decrypt fhe (encryptedWarningFlag (riskAssessments s dataId))))"

definition getMaintenanceHistory :: "DamSafetyMonitor \<Rightarrow> uint256 \<Rightarrow> MaintenanceRecord list" where
  "getMaintenanceHistory s damId = maintenanceHistory s damId"

subsection \<open>Transactions\<close>

datatype call =
    SubmitSensorData euint32 euint32 euint32
  | RequestRiskAssessment uint256
  | AssessRisk uint256 bytes bytes
  | RecordMaintenance uint256 string
  | UpdateSafetyThresholds euint32 euint32

fun dispatch ::
  "FHE \<Rightarrow> ctx \<Rightarrow> call \<Rightarrow> DamSafetyMonitor \<Rightarrow> (DamSafetyMonitor \<times> effect list) result" where
  "dispatch fhe c (SubmitSensorData a b p) s = submitSensorData fhe c s a b p"
| "dispatch fhe c (RequestRiskAssessment d) s = requestRiskAssessment fhe c s d"
| "dispatch fhe c (AssessRisk r res prf) s = assessRisk fhe s r res prf"
| "dispatch fhe c (RecordMaintenance d act) s = recordMaintenance c s d act"
| "dispatch fhe c (UpdateSafetyThresholds a b) s = updateSafetyThresholds c s a b"

text \<open>A transaction that reverts leaves the storage untouched and sends nothing out.\<close>

definition transact ::
  "FHE \<Rightarrow> ctx \<times> call \<Rightarrow> DamSafetyMonitor \<Rightarrow> DamSafetyMonitor \<times> effect list result" where
  "transact fhe tx s =
     (case dispatch fhe (fst tx) (snd tx) s of
        Inl e \<Rightarrow> (s, Inl e)
      | Inr (s', effs) \<Rightarrow> (s', Inr effs))"

text \<open>Transactions run one after the other; \<open>final\<close> is the storage they leave.\<close>

fun final :: "FHE \<Rightarrow> (ctx \<times> call) list \<Rightarrow> DamSafetyMonitor \<Rightarrow> DamSafetyMonitor" where
  "final fhe [] s = s"
| "final fhe (tx # txs) s = final fhe txs (fst (transact fhe tx s))"

fun outcomes :: "FHE \<Rightarrow> (ctx \<times> call) list \<Rightarrow> DamSafetyMonitor \<Rightarrow> effect list result list" where
  "outcomes fhe [] s = []"
| "outcomes fhe (tx # txs) s =
     snd (transact fhe tx s) # outcomes fhe txs (fst (transact fhe tx s))"

subsection \<open>What a run allocates and records\<close>

text \<open>The ids announced by \<open>SensorDataReceived\<close>, in the order of the run.\<close>

fun ids_of_effects :: "effect list \<Rightarrow> uint256 list" where
  "ids_of_effects [] = []"
| "ids_of_effects (Emit (SensorDataReceived i t) # es) = i # ids_of_effects es"
| "ids_of_effects (_ # es) = ids_of_effects es"

definition ids_of_result :: "effect list result \<Rightarrow> uint256 list" where
  "ids_of_result r = (case r of Inl _ \<Rightarrow> [] | Inr effs \<Rightarrow> ids_of_effects effs)"

definition allocated_ids :: "FHE \<Rightarrow> (ctx \<times> call) list \<Rightarrow> DamSafetyMonitor \<Rightarrow> uint256 list" where
  "allocated_ids fhe txs s = concat (map ids_of_result (outcomes fhe txs s))"

text \<open>
  The maintenance entries that the \<open>recordMaintenance\<close> transactions of a run hand in
  for one dam, in the order of the run.
\<close>

fun recorded :: "uint256 \<Rightarrow> (ctx \<times> call) list \<Rightarrow> MaintenanceRecord list" where
  "recorded damId [] = []"
| "recorded damId ((c, RecordMaintenance d act) # txs) =
     (if d = damId
      then \<lparr>MaintenanceRecord.timestamp = block_timestamp c, action = act\<rparr> # recorded damId txs
      else recorded damId txs)"
| "recorded damId (_ # txs) = recorded damId txs"

subsection \<open>A concrete deployment\<close>

text \<open>
  A stand-in for the library, to run the contract on concrete inputs: a handle is the
  plaintext itself, and a proof is valid when it is the low byte of the request id
  followed by the results.
\<close>

definition sample_FHE :: FHE where
  "sample_FHE =
     \<lparr>asEuint32 = (\<lambda>x. ucast x),
      asEbool = (\<lambda>b. if b then 1 else 0),
      toBytes32 = (\<lambda>h. h),
      checkSignatures = (\<lambda>requestId results prf. prf = ucast requestId # results),
      decrypt = (\<lambda>h. h = 1)\<rparr>"

definition deployed :: DamSafetyMonitor where
  "deployed = constructor sample_FHE"

text \<open>
  A transaction of Alice; a request made in it is numbered 2 by the coprocessor. In a
  later transaction of hers a request is numbered 3.
\<close>

definition alice :: ctx where
  "alice = \<lparr>msg_sender = 0xA11CE, block_timestamp = 1700000000, issued_request_id = 2\<rparr>"

definition alice_later :: ctx where
  "alice_later =
     \<lparr>msg_sender = 0xA11CE, block_timestamp = 1700000060, issued_request_id = 3\<rparr>"

text \<open>The zero address: no deployment gives it a capability.\<close>

definition nobody :: ctx where
  "nobody = \<lparr>msg_sender = 0, block_timestamp = 1700000600, issued_request_id = 2\<rparr>"

text \<open>The ABI encodings of \<open>(7, true)\<close> and \<open>(9, false)\<close>.\<close>

definition results_7_true :: bytes where
  "results_7_true = replicate 31 0 @ [7] @ replicate 31 0 @ [1]"

definition results_9_false :: bytes where
  "results_9_false = replicate 31 0 @ [9] @ replicate 31 0 @ [0]"

text \<open>
  Two readings are submitted and an assessment is requested for the first; the
  coprocessor numbers the request 2 and delivers under that id.
\<close>

definition misdirected :: "(ctx \<times> call) list" where
  "misdirected =
     [(alice, SubmitSensorData 11 22 33),
      (alice, SubmitSensorData 44 55 66),
      (alice, RequestRiskAssessment 1),
      (alice, AssessRisk 2 results_7_true (2 # results_7_true))]"

text \<open>One request for the second reading, answered twice with different results.\<close>

definition answered_once :: "(ctx \<times> call) list" where
  "answered_once =
     [(alice, SubmitSensorData 11 22 33),
      (alice, SubmitSensorData 44 55 66),
      (alice, RequestRiskAssessment 2),
      (alice, AssessRisk 2 results_7_true (2 # results_7_true))]"

definition answered_twice :: "(ctx \<times> call) list" where
  "answered_twice = answered_once @ [(alice, AssessRisk 2 results_9_false (2 # results_9_false))]"

text \<open>
  One reading, its assessment requested and delivered under the request id 2, and then
  a second reading, which takes the id 2.
\<close>

definition assessed_early :: "(ctx \<times> call) list" where
  "assessed_early =
     [(alice, SubmitSensorData 11 22 33),
      (alice, RequestRiskAssessment 1),
      (alice, AssessRisk 2 results_7_true (2 # results_7_true))]"

definition then_submitted :: "(ctx \<times> call) list" where
  "then_submitted = assessed_early @ [(alice, SubmitSensorData 44 55 66)]"

text \<open>
  Two requests for the same reading, the first one unanswered; the coprocessor numbers
  them 2 and 3.
\<close>

definition requested_twice :: "(ctx \<times> call) list" where
  "requested_twice =
     [(alice, SubmitSensorData 11 22 33),
      (alice, RequestRiskAssessment 1),
      (alice_later, RequestRiskAssessment 1)]"

text \<open>The four operator functions, called from the zero address.\<close>

definition called_by_nobody :: "(ctx \<times> call) list" where
  "called_by_nobody =
     [(nobody, SubmitSensorData 11 22 33),
      (nobody, RequestRiskAssessment 1),
      (nobody, UpdateSafetyThresholds 1 2),
      (nobody, RecordMaintenance 5 ''drain'')]"

text \<open>The deployed contract after one reading was submitted.\<close>

definition one_reading :: DamSafetyMonitor where
  "one_reading = final sample_FHE [(alice, SubmitSensorData 11 22 33)] deployed"

text \<open>A request, a threshold update, and the delivery for the request.\<close>

definition updated_in_between :: "(ctx \<times> call) list" where
  "updated_in_between =
     [(alice, RequestRiskAssessment 1),
      (alice, UpdateSafetyThresholds 777 888),
      (alice, AssessRisk 2 results_7_true (2 # results_7_true))]"

section \<open>Auxiliary facts\<close>

lemmas contract_defs =
  submitSensorData_def requestRiskAssessment_def assessRisk_def recordMaintenance_def
  updateSafetyThresholds_def onlyOperator_def transact_def

lemma be_uint_zeros: "be_uint (replicate n 0 @ bs) = be_uint bs"
  unfolding be_uint_def by (induction n) simp_all

lemma decode_7_true: "abi_decode_uint32_bool results_7_true = Some (7, True)"
  by (simp add: abi_decode_uint32_bool_def results_7_true_def be_uint_zeros)
     (simp add: be_uint_def)

lemma decode_9_false: "abi_decode_uint32_bool results_9_false = Some (9, False)"
  by (simp add: abi_decode_uint32_bool_def results_9_false_def be_uint_zeros)
     (simp add: be_uint_def)

lemma inc_greater: "(x::uint256) \<noteq> - 1 \<Longrightarrow> x < x + 1"
  by (simp add: inc_less_eq_self_iff_eq flip: not_le)

lemmas sample_defs =
  deployed_def constructor_def sample_FHE_def alice_def
  zero_RiskAssessment_def zero_EncryptedSensorData_def

lemmas run_simps = contract_defs Let_def decode_7_true decode_9_false

subsection \<open>The maintenance history along a run\<close>

lemma transact_history:
  "maintenanceHistory (fst (transact fhe tx s)) damId = maintenanceHistory s damId @ recorded damId [tx]"
proof (cases tx)
  case (Pair c cl)
  then show ?thesis
    by (cases cl) (auto simp: contract_defs Let_def split: option.splits)
qed

lemma recorded_Cons: "recorded damId (tx # txs) = recorded damId [tx] @ recorded damId txs"
proof (cases tx)
  case (Pair c cl)
  then show ?thesis by (cases cl) simp_all
qed

lemma final_history:
  "maintenanceHistory (final fhe txs s) damId = maintenanceHistory s damId @ recorded damId txs"
proof (induction txs arbitrary: s)
  case Nil
  show ?case by simp
next
  case (Cons tx txs)
  have "maintenanceHistory (final fhe (tx # txs) s) damId
        = maintenanceHistory (fst (transact fhe tx s)) damId @ recorded damId txs"
    by (simp add: Cons.IH)
  also have "\<dots> = (maintenanceHistory s damId @ recorded damId [tx]) @ recorded damId txs"
    by (simp only: transact_history)
  also have "\<dots> = maintenanceHistory s damId @ recorded damId (tx # txs)"
    by (simp add: recorded_Cons [of damId tx txs])
  finally show ?case .
qed

subsection \<open>The ids along a run\<close>

lemma transact_dataCount:
  "dataCount s \<le> dataCount (fst (transact fhe tx s))"
proof (cases tx)
  case (Pair c cl)
  then show ?thesis
    by (cases cl)
       (auto simp: contract_defs Let_def inc_greater order.strict_implies_order
             split: option.splits)
qed

lemma transact_ids:
  "\<forall>i \<in> set (ids_of_result (snd (transact fhe tx s))).
     dataCount s < i \<and> i \<le> dataCount (fst (transact fhe tx s))"
proof (cases tx)
  case (Pair c cl)
  then show ?thesis
    by (cases cl)
       (auto simp: contract_defs Let_def inc_greater ids_of_result_def
             split: option.splits)
qed

lemma transact_ids_sorted:
  "sorted_wrt (<) (ids_of_result (snd (transact fhe tx s)))"
proof (cases tx)
  case (Pair c cl)
  then show ?thesis
    by (cases cl)
       (auto simp: contract_defs Let_def ids_of_result_def split: option.splits)
qed

lemma final_dataCount: "dataCount s \<le> dataCount (final fhe txs s)"
proof (induction txs arbitrary: s)
  case Nil
  show ?case by simp
next
  case (Cons tx txs)
  have "dataCount s \<le> dataCount (fst (transact fhe tx s))"
    by (rule transact_dataCount)
  also have "\<dots> \<le> dataCount (final fhe (tx # txs) s)"
    using Cons.IH by simp
  finally show ?case .
qed

lemma allocated_ids_Cons:
  "allocated_ids fhe (tx # txs) s =
     ids_of_result (snd (transact fhe tx s)) @ allocated_ids fhe txs (fst (transact fhe tx s))"
  by (simp add: allocated_ids_def)

lemma allocated_ids_bounds:
  "i \<in> set (allocated_ids fhe txs s) \<Longrightarrow> dataCount s < i \<and> i \<le> dataCount (final fhe txs s)"
proof (induction txs arbitrary: s)
  case Nil
  then show ?case by (simp add: allocated_ids_def)
next
  case (Cons tx txs)
  let ?s' = "fst (transact fhe tx s)"
  from Cons.prems consider
    (here) "i \<in> set (ids_of_result (snd (transact fhe tx s)))"
    | (later) "i \<in> set (allocated_ids fhe txs ?s')"
    by (auto simp: allocated_ids_Cons)
  then show ?case
  proof cases
    case here
    then have "dataCount s < i" "i \<le> dataCount ?s'"
      using transact_ids [of fhe tx s] by auto
    moreover have "dataCount ?s' \<le> dataCount (final fhe txs ?s')"
      by (rule final_dataCount)
    ultimately show ?thesis by simp
  next
    case later
    then have "dataCount ?s' < i" "i \<le> dataCount (final fhe txs ?s')"
      using Cons.IH by auto
    moreover have "dataCount s \<le> dataCount ?s'"
      by (rule transact_dataCount)
    ultimately show ?thesis by simp
  qed
qed

lemma allocated_ids_sorted: "sorted_wrt (<) (allocated_ids fhe txs s)"
proof (induction txs arbitrary: s)
  case Nil
  show ?case by (simp add: allocated_ids_def)
next
  case (Cons tx txs)
  let ?s' = "fst (transact fhe tx s)"
  have "x < y" if "x \<in> set (ids_of_result (snd (transact fhe tx s)))"
    and "y \<in> set (allocated_ids fhe txs ?s')" for x y
  proof -
    have "x \<le> dataCount ?s'" using that(1) transact_ids [of fhe tx s] by auto
    moreover have "dataCount ?s' < y" using that(2) allocated_ids_bounds by blast
    ultimately show ?thesis by simp
  qed
  then show ?case
    by (simp add: allocated_ids_Cons sorted_wrt_append transact_ids_sorted Cons.IH)
qed

section \<open>The claims\<close>

text \<open>
  C1: the result of a delivered assessment is applied to the record the request came
  from. The contract does not keep the request id that \<open>FHE.requestComputation\<close>
  returns, and \<open>assessRisk\<close> writes to \<open>riskAssessments[requestId]\<close>. In the run
  below the assessment is requested for reading 1, the coprocessor numbers the request 2,
  and the delivery marks reading 2 as assessed with the score of reading 1, while
  reading 1 stays unassessed.
\<close>

theorem assessRisk_lands_on_request_id:
  "outcomes sample_FHE misdirected deployed =
     [Inr [Emit (SensorDataReceived 1 1700000000)],
      Inr [Emit (SensorDataReceived 2 1700000000)],
      Inr [RequestComputation [11, 22, 33, 500, 100] assessRisk_selector 2,
           Emit (RiskAssessmentRequested 1)],
      Inr [Emit (RiskWarningGenerated 2)]] \<and>
   riskAssessments (final sample_FHE misdirected deployed) 1 =
     \<lparr>encryptedRiskScore = 0, encryptedWarningFlag = 0, isAssessed = False\<rparr> \<and>
   riskAssessments (final sample_FHE misdirected deployed) 2 =
     \<lparr>encryptedRiskScore = 7, encryptedWarningFlag = 1, isAssessed = True\<rparr>"
  by (simp add: misdirected_def sample_defs run_simps)

text \<open>
  C2: a delivery succeeds at most once for a request id. \<open>assessRisk\<close> has no guard
  besides the proof and the decoding: in the run below the request 2 is answered a second
  time, with other results and a proof valid for them, and the second delivery succeeds
  and replaces the score 7 and the raised flag by the score 9 and no flag.
\<close>

theorem assessRisk_answers_twice:
  "outcomes sample_FHE answered_twice deployed =
     [Inr [Emit (SensorDataReceived 1 1700000000)],
      Inr [Emit (SensorDataReceived 2 1700000000)],
      Inr [RequestComputation [44, 55, 66, 500, 100] assessRisk_selector 2,
           Emit (RiskAssessmentRequested 2)],
      Inr [Emit (RiskWarningGenerated 2)],
      Inr []] \<and>
   riskAssessments (final sample_FHE answered_once deployed) 2 =
     \<lparr>encryptedRiskScore = 7, encryptedWarningFlag = 1, isAssessed = True\<rparr> \<and>
   riskAssessments (final sample_FHE answered_twice deployed) 2 =
     \<lparr>encryptedRiskScore = 9, encryptedWarningFlag = 0, isAssessed = True\<rparr>"
  by (simp add: answered_twice_def answered_once_def sample_defs run_simps)

text \<open>
  C3: a delivery whose proof fails the verification fails with \<open>InvalidProof\<close> and
  changes nothing, whatever the results hold: \<open>assessRisk\<close> reverts before it decodes
  or writes, and the transaction leaves the whole storage as it was.
\<close>

theorem assessRisk_invalid_proof:
  "\<not> checkSignatures fhe requestId results prf \<Longrightarrow>
     assessRisk fhe s requestId results prf = Inl InvalidProof \<and>
     transact fhe (c, AssessRisk requestId results prf) s = (s, Inl InvalidProof)"
  by (simp add: assessRisk_def transact_def)

text \<open>C3 on the deployed contract, with an empty proof.\<close>

theorem assessRisk_invalid_proof_witness:
  "\<not> checkSignatures sample_FHE 2 results_7_true [] \<and>
   assessRisk sample_FHE deployed 2 results_7_true [] = Inl InvalidProof \<and>
   transact sample_FHE (alice, AssessRisk 2 results_7_true []) deployed = (deployed, Inl InvalidProof)"
  using assessRisk_invalid_proof [of sample_FHE 2 results_7_true "[]" deployed alice]
  by (simp add: sample_FHE_def)

text \<open>
  C4, as stated: a request for a record with a live pending request fails. The contract
  keeps no pending requests, and a second request for reading 1 succeeds while the first
  one is unanswered.
\<close>

theorem request_in_flight_counterexample:
  "outcomes sample_FHE requested_twice deployed =
     [Inr [Emit (SensorDataReceived 1 1700000000)],
      Inr [RequestComputation [11, 22, 33, 500, 100] assessRisk_selector 2,
           Emit (RiskAssessmentRequested 1)],
      Inr [RequestComputation [11, 22, 33, 500, 100] assessRisk_selector 3,
           Emit (RiskAssessmentRequested 1)]]"
  by (simp add: requested_twice_def alice_later_def sample_defs run_simps)

text \<open>
  C4, amended: for a submitted record (an id from 1 to \<open>dataCount\<close>),
  \<open>requestRiskAssessment\<close> fails with "Already assessed" exactly when the record has
  \<open>isAssessed = true\<close>. Exactly when it has not, the call succeeds: it hands the
  three sensor handles of the record and the two current threshold handles, in this
  order, to \<open>FHE.requestComputation\<close> with the selector of \<open>assessRisk\<close>, emits
  \<open>RiskAssessmentRequested\<close> for the record, and leaves the storage as it was. So a
  request changes nothing for the next one: a second request for the same record, made
  while the first is unanswered, has the outcome it would have had without the first,
  under whatever request id the coprocessor issues for it.
\<close>

theorem requestRiskAssessment_guard:
  assumes "1 \<le> d" and "d \<le> dataCount s"
  shows "(requestRiskAssessment fhe c s d = Inl (Error ''Already assessed'')) =
           isAssessed (riskAssessments s d) \<and>
         (requestRiskAssessment fhe c s d =
            Inr (s, [RequestComputation
                       [toBytes32 fhe (encryptedSeepage (sensorData s d)),
                        toBytes32 fhe (encryptedDeformation (sensorData s d)),
                        toBytes32 fhe (encryptedPressure (sensorData s d)),
                        toBytes32 fhe (encryptedSeepageThreshold s),
                        toBytes32 fhe (encryptedDeformationThreshold s)]
                       assessRisk_selector (issued_request_id c),
                     Emit (RiskAssessmentRequested d)])) =
           (\<not> isAssessed (riskAssessments s d)) \<and>
         final fhe [(c, RequestRiskAssessment d)] s = s \<and>
         outcomes fhe [(c, RequestRiskAssessment d), (c', RequestRiskAssessment d)] s =
           [snd (transact fhe (c, RequestRiskAssessment d) s),
            snd (transact fhe (c', RequestRiskAssessment d) s)]"
proof -
  have refused: "requestRiskAssessment fhe c s d = Inl (Error ''Already assessed'')"
    if "isAssessed (riskAssessments s d)"
    using that by (simp add: requestRiskAssessment_def onlyOperator_def)
  have accepted: "requestRiskAssessment fhe c s d =
            Inr (s, [RequestComputation
                       [toBytes32 fhe (encryptedSeepage (sensorData s d)),
                        toBytes32 fhe (encryptedDeformation (sensorData s d)),
                        toBytes32 fhe (encryptedPressure (sensorData s d)),
                        toBytes32 fhe (encryptedSeepageThreshold s),
                        toBytes32 fhe (encryptedDeformationThreshold s)]
                       assessRisk_selector (issued_request_id c),
                     Emit (RiskAssessmentRequested d)])"
    if "\<not> isAssessed (riskAssessments s d)"
    using that by (simp add: requestRiskAssessment_def onlyOperator_def Let_def)
  have same: "fst (transact fhe (c, RequestRiskAssessment d) s) = s"
    by (cases "isAssessed (riskAssessments s d)")
       (simp_all add: transact_def refused accepted)
  have "(requestRiskAssessment fhe c s d = Inl (Error ''Already assessed'')) =
           isAssessed (riskAssessments s d)"
    using refused accepted by (cases "isAssessed (riskAssessments s d)") simp_all
  moreover have "(requestRiskAssessment fhe c s d =
            Inr (s, [RequestComputation
                       [toBytes32 fhe (encryptedSeepage (sensorData s d)),
                        toBytes32 fhe (encryptedDeformation (sensorData s d)),
                        toBytes32 fhe (encryptedPressure (sensorData s d)),
                        toBytes32 fhe (encryptedSeepageThreshold s),
                        toBytes32 fhe (encryptedDeformationThreshold s)]
                       assessRisk_selector (issued_request_id c),
                     Emit (RiskAssessmentRequested d)])) =
           (\<not> isAssessed (riskAssessments s d))"
    using refused accepted by (cases "isAssessed (riskAssessments s d)") simp_all
  moreover have "final fhe [(c, RequestRiskAssessment d)] s = s"
    by (simp add: same)
  moreover have "outcomes fhe [(c, RequestRiskAssessment d), (c', RequestRiskAssessment d)] s =
           [snd (transact fhe (c, RequestRiskAssessment d) s),
            snd (transact fhe (c', RequestRiskAssessment d) s)]"
    by (simp add: same)
  ultimately show ?thesis by blast
qed

text \<open>
  C4, amended, on reading 1 before its assessment (accepted twice, under the request ids
  2 and 3) and on reading 2 after its assessment (refused).
\<close>

theorem requestRiskAssessment_guard_witness:
  "(1::uint256) \<le> 1 \<and> 1 \<le> dataCount one_reading \<and>
   requestRiskAssessment sample_FHE alice one_reading 1 =
     Inr (one_reading,
          [RequestComputation [11, 22, 33, 500, 100] assessRisk_selector 2,
           Emit (RiskAssessmentRequested 1)]) \<and>
   outcomes sample_FHE [(alice, RequestRiskAssessment 1), (alice_later, RequestRiskAssessment 1)]
       one_reading =
     [Inr [RequestComputation [11, 22, 33, 500, 100] assessRisk_selector 2,
           Emit (RiskAssessmentRequested 1)],
      Inr [RequestComputation [11, 22, 33, 500, 100] assessRisk_selector 3,
           Emit (RiskAssessmentRequested 1)]] \<and>
   (2::uint256) \<le> dataCount (final sample_FHE answered_once deployed) \<and>
   requestRiskAssessment sample_FHE alice (final sample_FHE answered_once deployed) 2 =
     Inl (Error ''Already assessed'')"
  using requestRiskAssessment_guard [of 1 one_reading sample_FHE alice alice_later]
    requestRiskAssessment_guard [of 2 "final sample_FHE answered_once deployed" sample_FHE alice alice]
  by (simp add: one_reading_def answered_once_def alice_later_def sample_defs run_simps)

text \<open>
  C5: a caller without the operator capability fails with \<open>Unauthorized\<close> in
  \<open>submitSensorData\<close>, \<open>requestRiskAssessment\<close>, \<open>updateSafetyThresholds\<close>
  and \<open>recordMaintenance\<close>, and changes nothing. The modifier \<open>onlyOperator\<close>
  checks nothing: called from the zero address on the fresh contract, the four functions
  succeed, and the counter, the thresholds and the maintenance history change.
\<close>

theorem operator_functions_run_for_nobody:
  "msg_sender nobody = 0 \<and>
   outcomes sample_FHE called_by_nobody deployed =
     [Inr [Emit (SensorDataReceived 1 1700000600)],
      Inr [RequestComputation [11, 22, 33, 500, 100] assessRisk_selector 2,
           Emit (RiskAssessmentRequested 1)],
      Inr [],
      Inr [Emit (MaintenanceRecorded 5 ''drain'')]] \<and>
   dataCount deployed = 0 \<and>
   dataCount (final sample_FHE called_by_nobody deployed) = 1 \<and>
   encryptedSeepageThreshold deployed = 500 \<and>
   encryptedSeepageThreshold (final sample_FHE called_by_nobody deployed) = 1 \<and>
   maintenanceHistory deployed 5 = [] \<and>
   maintenanceHistory (final sample_FHE called_by_nobody deployed) 5 =
     [\<lparr>MaintenanceRecord.timestamp = 1700000600, action = ''drain''\<rparr>]"
  by (simp add: called_by_nobody_def nobody_def sample_defs run_simps)

text \<open>
  C6: \<open>isAssessed\<close> never goes back to false, and the score and the flag are written
  only when it goes from false to true. In the first run a delivery under the request
  id 2 marks the id 2 as assessed before a reading has that id, and the next submission
  takes the id 2 and sets \<open>isAssessed\<close> back to false. In the second run the second
  delivery rewrites the score from 7 to 9 while \<open>isAssessed\<close> is true before and
  after.
\<close>

theorem isAssessed_not_monotone:
  "isAssessed (riskAssessments (final sample_FHE assessed_early deployed) 2) \<and>
   \<not> isAssessed (riskAssessments (final sample_FHE then_submitted deployed) 2) \<and>
   isAssessed (riskAssessments (final sample_FHE answered_once deployed) 2) \<and>
   encryptedRiskScore (riskAssessments (final sample_FHE answered_once deployed) 2) = 7 \<and>
   isAssessed (riskAssessments (final sample_FHE answered_twice deployed) 2) \<and>
   encryptedRiskScore (riskAssessments (final sample_FHE answered_twice deployed) 2) = 9"
  by (simp add: assessed_early_def then_submitted_def answered_twice_def answered_once_def
                sample_defs run_simps)

text \<open>
  C7: the payload of a request holds the thresholds as they are when the request is made,
  and a threshold update between the request and the delivery changes neither that
  payload nor the assessment. For a request that is accepted: the run with the update
  sends out the payload built from the thresholds before the update, the delivery has the
  outcome it has without the update, and both runs leave the same assessment records.
\<close>

theorem thresholds_snapshot_at_request:
  assumes "\<not> isAssessed (riskAssessments s d)"
  shows "outcomes fhe [(c1, RequestRiskAssessment d), (c2, UpdateSafetyThresholds a b),
                       (c3, AssessRisk r res prf)] s =
           [Inr [RequestComputation
                   [toBytes32 fhe (encryptedSeepage (sensorData s d)),
                    toBytes32 fhe (encryptedDeformation (sensorData s d)),
                    toBytes32 fhe (encryptedPressure (sensorData s d)),
                    toBytes32 fhe (encryptedSeepageThreshold s),
                    toBytes32 fhe (encryptedDeformationThreshold s)]
                   assessRisk_selector
                   (issued_request_id c1),
                 Emit (RiskAssessmentRequested d)],
            Inr [],
            snd (transact fhe (c3, AssessRisk r res prf) s)] \<and>
         outcomes fhe [(c1, RequestRiskAssessment d), (c3, AssessRisk r res prf)] s =
           [hd (outcomes fhe [(c1, RequestRiskAssessment d), (c2, UpdateSafetyThresholds a b),
                              (c3, AssessRisk r res prf)] s),
            snd (transact fhe (c3, AssessRisk r res prf) s)] \<and>
         riskAssessments (final fhe [(c1, RequestRiskAssessment d), (c2, UpdateSafetyThresholds a b),
                                     (c3, AssessRisk r res prf)] s) =
           riskAssessments (final fhe [(c1, RequestRiskAssessment d), (c3, AssessRisk r res prf)] s)"
proof -
  have req: "transact fhe (c1, RequestRiskAssessment d) s =
      (s, Inr [RequestComputation
                   [toBytes32 fhe (encryptedSeepage (sensorData s d)),
                    toBytes32 fhe (encryptedDeformation (sensorData s d)),
                    toBytes32 fhe (encryptedPressure (sensorData s d)),
                    toBytes32 fhe (encryptedSeepageThreshold s),
                    toBytes32 fhe (encryptedDeformationThreshold s)]
                   assessRisk_selector
                   (issued_request_id c1),
                 Emit (RiskAssessmentRequested d)])"
    using assms by (simp add: transact_def requestRiskAssessment_def onlyOperator_def Let_def)
  define s2 where "s2 = s\<lparr>encryptedSeepageThreshold := a, encryptedDeformationThreshold := b\<rparr>"
  have upd: "transact fhe (c2, UpdateSafetyThresholds a b) s = (s2, Inr [])"
    by (simp add: transact_def updateSafetyThresholds_def onlyOperator_def s2_def)
  have out: "snd (transact fhe (c3, AssessRisk r res prf) s2) =
             snd (transact fhe (c3, AssessRisk r res prf) s)"
    by (simp add: transact_def assessRisk_def s2_def split: option.splits prod.splits)
  have ra: "riskAssessments (fst (transact fhe (c3, AssessRisk r res prf) s2)) =
            riskAssessments (fst (transact fhe (c3, AssessRisk r res prf) s))"
    by (simp add: transact_def assessRisk_def s2_def split: option.splits prod.splits)
  show ?thesis
    by (simp add: req upd out ra)
qed

text \<open>
  C7 after one reading: the thresholds are replaced by 777 and 888 after the request, and
  the payload sent out holds 500 and 100.
\<close>

theorem thresholds_snapshot_at_request_witness:
  "\<not> isAssessed (riskAssessments one_reading 1) \<and>
   outcomes sample_FHE updated_in_between one_reading =
     [Inr [RequestComputation [11, 22, 33, 500, 100] assessRisk_selector 2,
           Emit (RiskAssessmentRequested 1)],
      Inr [],
      Inr [Emit (RiskWarningGenerated 2)]] \<and>
   encryptedSeepageThreshold (final sample_FHE updated_in_between one_reading) = 777"
  using thresholds_snapshot_at_request
    [of one_reading 1 sample_FHE alice alice 777 888 alice 2 results_7_true "2 # results_7_true"]
  by (simp add: updated_in_between_def one_reading_def sample_defs run_simps)

text \<open>
  C8: a submission takes the next id and creates, in the same transaction, the sensor
  record and an assessment record with the encryption of 0 as score, the encryption of
  false as flag and \<open>isAssessed = false\<close>, which is what the storage holds under the
  new id afterwards. The counter is a \<open>uint256\<close>, so the submission is accepted while
  the counter is below its maximum. Along every run, from every storage, the ids handed out
  are strictly increasing (so no id is handed out twice), all above the counter at the
  start.
\<close>

theorem submitSensorData_allocates:
  assumes "dataCount s \<noteq> - 1"
  shows "(\<exists>s'. submitSensorData fhe c s seepage deformation pressure =
             Inr (s', [Emit (SensorDataReceived (dataCount s + 1) (block_timestamp c))]) \<and>
           dataCount s' = dataCount s + 1 \<and>
           dataCount s < dataCount s' \<and>
           sensorData s' (dataCount s') =
             \<lparr>encryptedSeepage = seepage, encryptedDeformation = deformation,
              encryptedPressure = pressure,
              EncryptedSensorData.timestamp = block_timestamp c\<rparr> \<and>
           riskAssessments s' (dataCount s') =
             \<lparr>encryptedRiskScore = asEuint32 fhe 0,
              encryptedWarningFlag = asEbool fhe False,
              isAssessed = False\<rparr>) \<and>
         sorted_wrt (<) (allocated_ids fhe txs t) \<and>
         distinct (allocated_ids fhe txs t) \<and>
         (\<forall>i \<in> set (allocated_ids fhe txs t). dataCount t < i \<and> i \<le> dataCount (final fhe txs t))"
proof -
  have "dataCount s < dataCount s + 1"
    using assms by (rule inc_greater)
  then have step: "\<exists>s'. submitSensorData fhe c s seepage deformation pressure =
             Inr (s', [Emit (SensorDataReceived (dataCount s + 1) (block_timestamp c))]) \<and>
           dataCount s' = dataCount s + 1 \<and>
           dataCount s < dataCount s' \<and>
           sensorData s' (dataCount s') =
             \<lparr>encryptedSeepage = seepage, encryptedDeformation = deformation,
              encryptedPressure = pressure,
              EncryptedSensorData.timestamp = block_timestamp c\<rparr> \<and>
           riskAssessments s' (dataCount s') =
             \<lparr>encryptedRiskScore = asEuint32 fhe 0,
              encryptedWarningFlag = asEbool fhe False,
              isAssessed = False\<rparr>"
    using assms by (simp add: submitSensorData_def onlyOperator_def Let_def)
  have srt: "sorted_wrt (<) (allocated_ids fhe txs t)"
    by (rule allocated_ids_sorted)
  then have "distinct (allocated_ids fhe txs t)"
    by (simp add: strict_sorted_iff)
  with step srt show ?thesis
    using allocated_ids_bounds [of _ fhe txs t] by blast
qed

text \<open>C8 on the deployed contract: the first two submissions get the ids 1 and 2.\<close>

theorem submitSensorData_allocates_witness:
  "dataCount deployed \<noteq> - 1 \<and>
   fst (transact sample_FHE (alice, SubmitSensorData 11 22 33) deployed) = one_reading \<and>
   dataCount one_reading = 1 \<and>
   riskAssessments one_reading 1 =
     \<lparr>encryptedRiskScore = 0, encryptedWarningFlag = 0, isAssessed = False\<rparr> \<and>
   allocated_ids sample_FHE answered_once deployed = [1, 2]"
  using submitSensorData_allocates [of deployed sample_FHE alice 11 22 33 answered_once deployed]
  by (simp add: allocated_ids_def ids_of_result_def one_reading_def answered_once_def
                sample_defs run_simps)

text \<open>
  C9: the maintenance history of a dam is append-only and in the order of the calls.
  After every run it is the history before the run followed by the entries that the
  \<open>recordMaintenance\<close> transactions of the run handed in for that dam, in their
  order; so the earlier history is a prefix of the later one, and on the fresh contract
  three entries are read back as exactly these three, oldest first.
\<close>

theorem maintenance_history_append_only:
  "getMaintenanceHistory (final fhe txs s) damId = getMaintenanceHistory s damId @ recorded damId txs \<and>
   prefix (getMaintenanceHistory s damId) (getMaintenanceHistory (final fhe txs s) damId) \<and>
   getMaintenanceHistory
     (final fhe [(c1, RecordMaintenance damId a1), (c2, RecordMaintenance damId a2),
                 (c3, RecordMaintenance damId a3)] (constructor fhe)) damId =
     [\<lparr>MaintenanceRecord.timestamp = block_timestamp c1, action = a1\<rparr>,
      \<lparr>MaintenanceRecord.timestamp = block_timestamp c2, action = a2\<rparr>,
      \<lparr>MaintenanceRecord.timestamp = block_timestamp c3, action = a3\<rparr>]"
proof -
  have init: "maintenanceHistory (constructor fhe) damId = []"
    by (simp add: constructor_def)
  show ?thesis
    unfolding getMaintenanceHistory_def final_history
    by (simp add: init)
qed

text \<open>
  C10: \<open>getEncryptedRiskScore\<close> and \<open>hasWarning\<close> revert with "Not assessed"
  exactly when the record has \<open>isAssessed = false\<close>, which is the case for every id
  on the fresh contract, and return the stored score and the decrypted flag exactly when
  it is true. Both are \<open>view\<close> functions: they return a value and no storage.
\<close>

theorem reads_need_assessment:
  "(getEncryptedRiskScore s dataId = Inl (Error ''Not assessed'')) =
     (\<not> isAssessed (riskAssessments s dataId)) \<and>
   (hasWarning fhe s dataId = Inl (Error ''Not assessed'')) =
     (\<not> isAssessed (riskAssessments s dataId)) \<and>
   (getEncryptedRiskScore s dataId = Inr (encryptedRiskScore (riskAssessments s dataId))) =
     isAssessed (riskAssessments s dataId) \<and>
   (hasWarning fhe s dataId = Inr (decrypt fhe (encryptedWarningFlag (riskAssessments s dataId)))) =
     isAssessed (riskAssessments s dataId) \<and>
   getEncryptedRiskScore (constructor fhe) dataId = Inl (Error ''Not assessed'') \<and>
   hasWarning fhe (constructor fhe) dataId = Inl (Error ''Not assessed'')"
  by (simp add: getEncryptedRiskScore_def hasWarning_def constructor_def zero_RiskAssessment_def)

end
